theory Spec2Isabelle
  imports Main "HOL-Library.Word" "HOL-Library.AList"
begin

unbundle bit_operations_syntax

section \<open>Decorators for ML models: the data model\<close>

text \<open>
  The repository defines \<^verbatim>\<open>MLModelDecorator\<close>, a subclass of the \<^verbatim>\<open>MLModel\<close> base
  class that holds a reference \<^verbatim>\<open>_model\<close> to another \<^verbatim>\<open>MLModel\<close> and forwards the
  six properties and \<^verbatim>\<open>predict\<close> to it, and \<^verbatim>\<open>PredictionIDDecorator\<close>, which
  overrides \<^verbatim>\<open>description\<close>, \<^verbatim>\<open>input_schema\<close>, \<^verbatim>\<open>output_schema\<close> and \<^verbatim>\<open>predict\<close>.

  Python objects have identity and are shared by reference, so the model keeps them in
  a store: a list of objects, an address being an index into it. Exceptions are values
  of the type \<open>error\<close>; an operation returns its result or the exception it raises.

  Code from outside the repository is modelled as far as the decorators use it: the
  \<^verbatim>\<open>MLModel\<close> base class of \<^verbatim>\<open>ml_base\<close> and the models that implement it, the model
  classes of pydantic with \<^verbatim>\<open>create_model\<close> and the construction of an instance, and
  \<^verbatim>\<open>uuid4\<close> of the standard library. \<^verbatim>\<open>SimplePredictDecorator\<close>, which prints a line
  before and after the wrapped call, is left out.
\<close>

type_synonym addr = nat

datatype error =
    ValueError string
  | AttributeError string
  | KeyError string
  | TypeError string
  | ValidationError
  | ModelError string

text \<open>Values held by the fields of a schema instance, and by keyword arguments.\<close>

datatype pyval = PNone | PStr string | PInt int | PBool bool

text \<open>
  A schema is a pydantic model class: its \<^verbatim>\<open>__name__\<close> and its ordered fields. A field
  descriptor carries the type, whether the field is required, its default and its
  constraints and metadata, which stay opaque.
\<close>

datatype ftype = TStr | TInt | TBool | TOptional ftype

record field =
  ftype :: ftype
  required :: bool
  default :: "pyval option"
  constraints :: "(string \<times> pyval) list"

record schema =
  schema_name :: string
  schema_fields :: "(string \<times> field) list"

text \<open>An instance of a schema: the address of its class and its field values.\<close>

record schema_instance =
  cls :: addr
  attrs :: "(string \<times> pyval) list"

text \<open>
  An \<^verbatim>\<open>MLModel\<close> implemented outside this repository: its four strings, the addresses
  of its two schema classes and its prediction function.
\<close>

record base_model =
  m_display_name :: string
  m_qualified_name :: string
  m_description :: string
  m_version :: string
  m_input_schema :: addr
  m_output_schema :: addr
  m_predict :: "schema_instance \<Rightarrow> error + schema_instance"

datatype dclass = MLModelDecorator | PredictionIDDecorator

text \<open>A reference value: \<^verbatim>\<open>None\<close> or an object.\<close>

datatype ref = PyNone | Ref addr

type_synonym kwargs = "(string \<times> pyval) list"

text \<open>
  The objects of the store. \<open>Decorator c model conf\<close> is an instance of the decorator
  class \<open>c\<close> with the entries \<^verbatim>\<open>_model\<close> and \<^verbatim>\<open>_configuration\<close> of its \<^verbatim>\<open>__dict__\<close>, each
  \<open>None\<close> while the key is absent (the instance \<^verbatim>\<open>__new__\<close> returns has neither);
  \<open>Other\<close> is any object that is neither an \<^verbatim>\<open>MLModel\<close> nor a schema class.
\<close>

datatype obj =
    Schema schema
  | Model base_model
  | Decorator dclass "ref option" "kwargs option"
  | Other

text \<open>
  The state: the store, the operating system's entropy source as the sequence of its
  16-byte draws, and the number of draws made so far.
\<close>

record state =
  heap :: "obj list"
  entropy :: "nat \<Rightarrow> 128 word"
  draws :: nat

definition lookup :: "obj list \<Rightarrow> addr \<Rightarrow> obj option" where
  "lookup h a = (if a < length h then Some (h ! a) else None)"

text \<open>\<^verbatim>\<open>isinstance(model, MLModel)\<close>: decorators are subclasses of \<^verbatim>\<open>MLModel\<close>.\<close>

definition isinstance_MLModel :: "obj list \<Rightarrow> ref \<Rightarrow> bool" where
  "isinstance_MLModel h r =
     (case r of
        PyNone \<Rightarrow> False
      | Ref a \<Rightarrow>
          (case lookup h a of
             Some (Model m) \<Rightarrow> True
           | Some (Decorator c model conf) \<Rightarrow> True
           | _ \<Rightarrow> False))"

text \<open>The class of a decorator instance; \<open>None\<close> for every other object.\<close>

definition decorator_class :: "obj list \<Rightarrow> addr \<Rightarrow> dclass option" where
  "decorator_class h a =
     (case lookup h a of
        Some (Decorator c model conf) \<Rightarrow> Some c
      | _ \<Rightarrow> None)"

section \<open>The base class for decorators\<close>

text \<open>
  \<^verbatim>\<open>
  def __init__(self, model: Optional[MLModel] = None, **kwargs) -> None:
      if model is not None and not isinstance(model, MLModel):
          raise ValueError("Only objects of type MLModel can be wrapped with MLModelDecorator instances.")
      self.__dict__["_model"] = model
      self.__dict__["_configuration"] = kwargs
  \<close>
  The method runs on an existing decorator instance \<open>self\<close>; it returns the exception
  or \<open>()\<close>, and the store it leaves.
\<close>

definition MLModelDecorator_init ::
  "obj list \<Rightarrow> addr \<Rightarrow> ref \<Rightarrow> kwargs \<Rightarrow> (error + unit) \<times> obj list" where
  "MLModelDecorator_init h self model kw =
     (case decorator_class h self of
        None \<Rightarrow> (Inl (TypeError ''__init__''), h)
      | Some c \<Rightarrow>
          if model \<noteq> PyNone \<and> \<not> isinstance_MLModel h model
          then (Inl (ValueError ''Only objects of type MLModel can be wrapped with MLModelDecorator instances.''), h)
          else (Inr (), h[self := Decorator c (Some model) (Some kw)]))"

text \<open>
  The constructor call \<^verbatim>\<open>cls(model, **kwargs)\<close>: \<^verbatim>\<open>__new__\<close> allocates an instance with
  an empty \<^verbatim>\<open>__dict__\<close> at a fresh address, \<^verbatim>\<open>__init__\<close> runs on it, and the address is
  returned only when \<^verbatim>\<open>__init__\<close> raised nothing.
\<close>

definition new_decorator ::
  "dclass \<Rightarrow> obj list \<Rightarrow> ref \<Rightarrow> kwargs \<Rightarrow> (error + addr) \<times> obj list" where
  "new_decorator c h model kw =
     (let self = length h; h0 = h @ [Decorator c None None]
      in case MLModelDecorator_init h0 self model kw of
           (Inl e, h1) \<Rightarrow> (Inl e, h1)
         | (Inr u, h1) \<Rightarrow> (Inr self, h1))"

text \<open>
  \<^verbatim>\<open>self.__dict__["_model"].attr\<close>, as the base class reads the wrapped object: the
  object the attribute \<open>attr\<close> is then read from, or the exception. On an unbound
  decorator \<^verbatim>\<open>_model\<close> is \<^verbatim>\<open>None\<close>, and reading an attribute of \<^verbatim>\<open>None\<close> raises
  \<^verbatim>\<open>AttributeError\<close>.
\<close>

fun dict_model :: "string \<Rightarrow> ref option \<Rightarrow> error + addr" where
  "dict_model attr None = Inl (KeyError ''_model'')"
| "dict_model attr (Some PyNone) = Inl (AttributeError attr)"
| "dict_model attr (Some (Ref w)) = Inr w"

text \<open>\<^verbatim>\<open>self._model.attr\<close>, as \<^verbatim>\<open>PredictionIDDecorator\<close> reads the wrapped object.\<close>

fun self_model :: "string \<Rightarrow> ref option \<Rightarrow> error + addr" where
  "self_model attr None = Inl (AttributeError ''_model'')"
| "self_model attr (Some PyNone) = Inl (AttributeError attr)"
| "self_model attr (Some (Ref w)) = Inr w"

subsection \<open>The four string properties\<close>

datatype sattr = Display_name | Qualified_name | Description | Version

fun sattr_name :: "sattr \<Rightarrow> string" where
  "sattr_name Display_name = ''display_name''"
| "sattr_name Qualified_name = ''qualified_name''"
| "sattr_name Description = ''description''"
| "sattr_name Version = ''version''"

fun base_str :: "sattr \<Rightarrow> base_model \<Rightarrow> string" where
  "base_str Display_name m = m_display_name m"
| "base_str Qualified_name m = m_qualified_name m"
| "base_str Description m = m_description m"
| "base_str Version m = m_version m"

definition decorator_description :: string where
  "decorator_description = '' This model also has an optional input called 'prediction_id' that accepts an UUID string to uniquely identify the prediction returned. If the prediction id is not provided, a UUID is generated and returned in a field called 'prediction_id' in the model output.''"

text \<open>
  \<^verbatim>\<open>PredictionIDDecorator.description\<close>, applied to what \<^verbatim>\<open>self._model.description\<close>
  gave: \<^verbatim>\<open>return self._model.description + decorator_description\<close>.
\<close>

definition PredictionIDDecorator_description :: "error + string \<Rightarrow> error + string" where
  "PredictionIDDecorator_description r =
     (case r of Inl e \<Rightarrow> Inl e | Inr s \<Rightarrow> Inr (s @ decorator_description))"

text \<open>
  Reading the string property \<open>p\<close> of the object at \<open>a\<close>. A base-class decorator returns
  \<^verbatim>\<open>self.__dict__["_model"].p\<close>; \<^verbatim>\<open>PredictionIDDecorator\<close> overrides \<^verbatim>\<open>description\<close>
  only. The chain of \<^verbatim>\<open>_model\<close> references is followed through the store, so the
  function is partial: \<open>None\<close> is a read that never returns.
\<close>

partial_function (option) str_property ::
  "sattr \<Rightarrow> obj list \<Rightarrow> addr \<Rightarrow> (error + string) option" where
  "str_property p h a =
     (case lookup h a of
        Some (Model m) \<Rightarrow> Some (Inr (base_str p m))
      | Some (Decorator c model conf) \<Rightarrow>
          if c = PredictionIDDecorator \<and> p = Description
          then (case self_model (sattr_name p) model of
                  Inl e \<Rightarrow> Some (Inl e)
                | Inr w \<Rightarrow>
                    Option.bind (str_property p h w)
                      (\<lambda>r. Some (PredictionIDDecorator_description r)))
          else (case dict_model (sattr_name p) model of
                  Inl e \<Rightarrow> Some (Inl e)
                | Inr w \<Rightarrow> str_property p h w)
      | _ \<Rightarrow> Some (Inl (AttributeError (sattr_name p))))"

definition display_name :: "obj list \<Rightarrow> addr \<Rightarrow> (error + string) option" where
  "display_name = str_property Display_name"

definition qualified_name :: "obj list \<Rightarrow> addr \<Rightarrow> (error + string) option" where
  "qualified_name = str_property Qualified_name"

definition description :: "obj list \<Rightarrow> addr \<Rightarrow> (error + string) option" where
  "description = str_property Description"

definition version :: "obj list \<Rightarrow> addr \<Rightarrow> (error + string) option" where
  "version = str_property Version"

subsection \<open>The two schema properties\<close>

text \<open>
  Modelled from the spec: \<^verbatim>\<open>create_model\<close> is pydantic's, not code of this repository.
  The spec's contract extension: the result contains every field of the base contract
  unchanged plus every field of the additions, a name collision resolves in favour of
  the additions, the result's name is the one the caller supplies, and the base
  contract is not mutated. The new class is a new object of the store; an overridden
  field keeps its position and a new one comes last.
\<close>

definition create_model ::
  "state \<Rightarrow> string \<Rightarrow> (string \<times> field) list \<Rightarrow> schema \<Rightarrow> addr \<times> state" where
  "create_model st name additions base =
     (length (heap st),
      st\<lparr>heap := heap st @
        [Schema \<lparr>schema_name = name,
                 schema_fields = fold (\<lambda>(k, f). AList.update k f) additions (schema_fields base)\<rparr>]\<rparr>)"

text \<open>\<^verbatim>\<open>prediction_id=(Optional[str], None)\<close> and \<^verbatim>\<open>prediction_id=(str, ...)\<close>.\<close>

definition input_prediction_id :: field where
  "input_prediction_id =
     \<lparr>ftype = TOptional TStr, required = False, default = Some PNone, constraints = []\<rparr>"

definition output_prediction_id :: field where
  "output_prediction_id =
     \<lparr>ftype = TStr, required = True, default = None, constraints = []\<rparr>"

text \<open>
  \<^verbatim>\<open>
  def input_schema(self):
      input_schema = self._model.input_schema
      new_input_schema = create_model(
          input_schema.__name__,
          prediction_id=(Optional[str], None),
          __base__=input_schema,
      )
      return new_input_schema
  \<close>
  applied to what \<^verbatim>\<open>self._model.input_schema\<close> gave, and the same for the output.
\<close>

definition PredictionIDDecorator_input_schema ::
  "(error + addr) \<times> state \<Rightarrow> (error + addr) \<times> state" where
  "PredictionIDDecorator_input_schema rs =
     (case rs of
        (Inl e, st) \<Rightarrow> (Inl e, st)
      | (Inr input_schema, st) \<Rightarrow>
          (case lookup (heap st) input_schema of
             Some (Schema sch) \<Rightarrow>
               (case create_model st (schema_name sch)
                       [(''prediction_id'', input_prediction_id)] sch of
                  (new_input_schema, st') \<Rightarrow> (Inr new_input_schema, st'))
           | _ \<Rightarrow> (Inl (AttributeError ''__name__''), st)))"

definition PredictionIDDecorator_output_schema ::
  "(error + addr) \<times> state \<Rightarrow> (error + addr) \<times> state" where
  "PredictionIDDecorator_output_schema rs =
     (case rs of
        (Inl e, st) \<Rightarrow> (Inl e, st)
      | (Inr output_schema, st) \<Rightarrow>
          (case lookup (heap st) output_schema of
             Some (Schema sch) \<Rightarrow>
               (case create_model st (schema_name sch)
                       [(''prediction_id'', output_prediction_id)] sch of
                  (new_output_schema, st') \<Rightarrow> (Inr new_output_schema, st'))
           | _ \<Rightarrow> (Inl (AttributeError ''__name__''), st)))"

datatype cattr = Input_schema | Output_schema

fun cattr_name :: "cattr \<Rightarrow> string" where
  "cattr_name Input_schema = ''input_schema''"
| "cattr_name Output_schema = ''output_schema''"

fun base_schema :: "cattr \<Rightarrow> base_model \<Rightarrow> addr" where
  "base_schema Input_schema m = m_input_schema m"
| "base_schema Output_schema m = m_output_schema m"

fun PredictionIDDecorator_schema ::
  "cattr \<Rightarrow> (error + addr) \<times> state \<Rightarrow> (error + addr) \<times> state" where
  "PredictionIDDecorator_schema Input_schema rs = PredictionIDDecorator_input_schema rs"
| "PredictionIDDecorator_schema Output_schema rs = PredictionIDDecorator_output_schema rs"

text \<open>
  Reading the schema property \<open>p\<close> of the object at \<open>a\<close>: the address of the schema
  class, and the state, in which \<^verbatim>\<open>PredictionIDDecorator\<close> has created a class.
\<close>

partial_function (option) schema_property ::
  "cattr \<Rightarrow> state \<Rightarrow> addr \<Rightarrow> ((error + addr) \<times> state) option" where
  "schema_property p st a =
     (case lookup (heap st) a of
        Some (Model m) \<Rightarrow> Some (Inr (base_schema p m), st)
      | Some (Decorator c model conf) \<Rightarrow>
          (case c of
             MLModelDecorator \<Rightarrow>
               (case dict_model (cattr_name p) model of
                  Inl e \<Rightarrow> Some (Inl e, st)
                | Inr w \<Rightarrow> schema_property p st w)
           | PredictionIDDecorator \<Rightarrow>
               (case self_model (cattr_name p) model of
                  Inl e \<Rightarrow> Some (Inl e, st)
                | Inr w \<Rightarrow>
                    Option.bind (schema_property p st w)
                      (\<lambda>rs. Some (PredictionIDDecorator_schema p rs))))
      | _ \<Rightarrow> Some (Inl (AttributeError (cattr_name p)), st))"

text \<open>
  The class \<^verbatim>\<open>PredictionIDDecorator\<close> creates from the class \<open>sch\<close> of the wrapped
  component when the property \<open>p\<close> is read.
\<close>

definition derived :: "cattr \<Rightarrow> schema \<Rightarrow> schema" where
  "derived p sch =
     \<lparr>schema_name = schema_name sch,
      schema_fields = AList.update ''prediction_id''
        (case p of Input_schema \<Rightarrow> input_prediction_id | Output_schema \<Rightarrow> output_prediction_id)
        (schema_fields sch)\<rparr>"

definition input_schema :: "state \<Rightarrow> addr \<Rightarrow> ((error + addr) \<times> state) option" where
  "input_schema = schema_property Input_schema"

definition output_schema :: "state \<Rightarrow> addr \<Rightarrow> ((error + addr) \<times> state) option" where
  "output_schema = schema_property Output_schema"

section \<open>Identifiers\<close>

text \<open>
  \<^verbatim>\<open>uuid4()\<close> of the Python standard library: sixteen bytes of \<^verbatim>\<open>os.urandom\<close> read as
  a 128-bit integer, with the variant and the version written over six of its bits:
  \<^verbatim>\<open>
  int &= ~(0xc000 << 48); int |= 0x8000 << 48
  int &= ~(0xf000 << 64); int |= version << 76
  \<close>
  One draw of the entropy source is consumed.
\<close>

definition uuid4 :: "state \<Rightarrow> 128 word \<times> state" where
  "uuid4 st =
     (let i0 = entropy st (draws st);
          i1 = i0 AND NOT (push_bit 48 0xc000);
          i2 = i1 OR push_bit 48 0x8000;
          i3 = i2 AND NOT (push_bit 64 0xf000);
          i4 = i3 OR push_bit 76 4
      in (i4, st\<lparr>draws := Suc (draws st)\<rparr>))"



definition hex_digits :: string where
  "hex_digits = ''0123456789abcdef''"

definition hexdigit :: "nat \<Rightarrow> char" where
  "hexdigit n = hex_digits ! n"

text \<open>\<^verbatim>\<open>'%032x' % self.int\<close>: the 32 hexadecimal digits, most significant first.\<close>

definition hex32 :: "128 word \<Rightarrow> string" where
  "hex32 w = map (\<lambda>i. hexdigit (unat (drop_bit (4 * (31 - i)) w AND 0xf))) [0..<32]"

text \<open>
  \<^verbatim>\<open>str(uuid)\<close>:
  \<^verbatim>\<open>'%s-%s-%s-%s-%s' % (hex[:8], hex[8:12], hex[12:16], hex[16:20], hex[20:])\<close>.
\<close>

definition uuid_str :: "128 word \<Rightarrow> string" where
  "uuid_str w =
     (let hex = hex32 w
      in take 8 hex @ ''-'' @ take 4 (drop 8 hex) @ ''-'' @ take 4 (drop 12 hex) @ ''-'' @
         take 4 (drop 16 hex) @ ''-'' @ drop 20 hex)"



section \<open>Schema instances\<close>

definition hasattr :: "schema_instance \<Rightarrow> string \<Rightarrow> bool" where
  "hasattr data n = (map_of (attrs data) n \<noteq> None)"

definition getattr :: "schema_instance \<Rightarrow> string \<Rightarrow> error + pyval" where
  "getattr data n =
     (case map_of (attrs data) n of None \<Rightarrow> Inl (AttributeError n) | Some v \<Rightarrow> Inr v)"

text \<open>
  The validation of one value against one field descriptor is the schema library's and
  stays a parameter: it returns the value the field takes, or \<open>None\<close> when it rejects.
\<close>

type_synonym validator = "field \<Rightarrow> pyval \<Rightarrow> pyval option"

text \<open>
  Building an instance from keyword arguments: every field of the class, in order,
  takes the validated argument of its name; a missing argument is an error for a
  required field and the default otherwise; arguments that name no field are ignored.
\<close>

fun validate_fields ::
  "validator \<Rightarrow> (string \<times> field) list \<Rightarrow> kwargs \<Rightarrow> error + (string \<times> pyval) list" where
  "validate_fields V [] kw = Inr []"
| "validate_fields V ((n, f) # fs) kw =
     (case (case map_of kw n of
              Some v \<Rightarrow> V f v
            | None \<Rightarrow> if required f then None
                      else Some (case default f of Some v \<Rightarrow> v | None \<Rightarrow> PNone)) of
        None \<Rightarrow> Inl ValidationError
      | Some v \<Rightarrow>
          (case validate_fields V fs kw of
             Inl e \<Rightarrow> Inl e
           | Inr vs \<Rightarrow> Inr ((n, v) # vs)))"

definition new_instance ::
  "validator \<Rightarrow> obj list \<Rightarrow> addr \<Rightarrow> kwargs \<Rightarrow> error + schema_instance" where
  "new_instance V h c kw =
     (case lookup h c of
        Some (Schema sch) \<Rightarrow>
          (case validate_fields V (schema_fields sch) kw of
             Inl e \<Rightarrow> Inl e
           | Inr vs \<Rightarrow> Inr \<lparr>cls = c, attrs = vs\<rparr>)
      | _ \<Rightarrow> Inl (TypeError ''object is not callable''))"

text \<open>
  The keyword arguments of a call \<^verbatim>\<open>f(k=v, **d)\<close>: Python raises \<^verbatim>\<open>TypeError\<close> when \<open>d\<close>
  has the key \<open>k\<close> too.
\<close>

definition call_kwargs :: "string \<Rightarrow> pyval \<Rightarrow> kwargs \<Rightarrow> error + kwargs" where
  "call_kwargs k v d =
     (if k \<in> fst ` set d
      then Inl (TypeError ''got multiple values for keyword argument'')
      else Inr ((k, v) # d))"

section \<open>Prediction\<close>

text \<open>
  \<^verbatim>\<open>
  if hasattr(data, "prediction_id") and data.prediction_id is not None:
      prediction_id = data.prediction_id
  else:
      prediction_id = str(uuid4())
  \<close>
\<close>

definition PredictionIDDecorator_prediction_id ::
  "state \<Rightarrow> schema_instance \<Rightarrow> (error + pyval) \<times> state" where
  "PredictionIDDecorator_prediction_id st data =
     (if hasattr data ''prediction_id''
      then (case getattr data ''prediction_id'' of
              Inl e \<Rightarrow> (Inl e, st)
            | Inr v \<Rightarrow>
                if v \<noteq> PNone then (Inr v, st)
                else (case uuid4 st of (u, st') \<Rightarrow> (Inr (PStr (uuid_str u)), st')))
      else (case uuid4 st of (u, st') \<Rightarrow> (Inr (PStr (uuid_str u)), st')))"

text \<open>
  \<^verbatim>\<open>
  wrapped_prediction = self.output_schema(prediction_id=prediction_id, **prediction.dict())
  return wrapped_prediction
  \<close>
  applied to what reading \<^verbatim>\<open>self.output_schema\<close> gave.
\<close>

definition PredictionIDDecorator_wrap ::
  "validator \<Rightarrow> pyval \<Rightarrow> schema_instance \<Rightarrow> (error + addr) \<times> state \<Rightarrow>
     (error + schema_instance) \<times> state" where
  "PredictionIDDecorator_wrap V prediction_id prediction rs =
     (case rs of
        (Inl e, st) \<Rightarrow> (Inl e, st)
      | (Inr c, st) \<Rightarrow>
          (case call_kwargs ''prediction_id'' prediction_id (attrs prediction) of
             Inl e \<Rightarrow> (Inl e, st)
           | Inr kw \<Rightarrow> (new_instance V (heap st) c kw, st)))"

text \<open>
  \<^verbatim>\<open>predict\<close> of the object at \<open>a\<close>. The base class returns
  \<^verbatim>\<open>self.__dict__["_model"].predict(data=data)\<close>; \<^verbatim>\<open>PredictionIDDecorator\<close> chooses the
  identifier, calls \<^verbatim>\<open>self._model.predict(data=data)\<close> and wraps the prediction.
\<close>

partial_function (option) predict ::
  "validator \<Rightarrow> state \<Rightarrow> addr \<Rightarrow> schema_instance \<Rightarrow>
     ((error + schema_instance) \<times> state) option" where
  "predict V st a data =
     (case lookup (heap st) a of
        Some (Model m) \<Rightarrow> Some (m_predict m data, st)
      | Some (Decorator c model conf) \<Rightarrow>
          (case c of
             MLModelDecorator \<Rightarrow>
               (case dict_model ''predict'' model of
                  Inl e \<Rightarrow> Some (Inl e, st)
                | Inr w \<Rightarrow> predict V st w data)
           | PredictionIDDecorator \<Rightarrow>
               (case PredictionIDDecorator_prediction_id st data of
                  (Inl e, st1) \<Rightarrow> Some (Inl e, st1)
                | (Inr prediction_id, st1) \<Rightarrow>
                    (case self_model ''predict'' model of
                       Inl e \<Rightarrow> Some (Inl e, st1)
                     | Inr w \<Rightarrow>
                         Option.bind (predict V st1 w data)
                           (\<lambda>(r, st2).
                              case r of
                                Inl e \<Rightarrow> Some (Inl e, st2)
                              | Inr prediction \<Rightarrow>
                                  Option.bind (output_schema st2 a)
                                    (\<lambda>rs. Some (PredictionIDDecorator_wrap V prediction_id
                                                  prediction rs))))))
      | _ \<Rightarrow> Some (Inl (AttributeError ''predict''), st))"

section \<open>Chains\<close>

text \<open>
  \<open>chain_end h a b\<close>: following \<^verbatim>\<open>_model\<close> from the object at \<open>a\<close> ends at the model \<open>b\<close>
  that is not a decorator.
\<close>

inductive chain_end :: "obj list \<Rightarrow> addr \<Rightarrow> addr \<Rightarrow> bool" where
  base: "lookup h a = Some (Model m) \<Longrightarrow> chain_end h a a"
| step: "lookup h a = Some (Decorator c (Some (Ref w)) conf) \<Longrightarrow> chain_end h w b \<Longrightarrow>
         chain_end h a b"

section \<open>A model and its decorators\<close>

text \<open>
  A model with the input \<^verbatim>\<open>{a: int}\<close> and the output \<^verbatim>\<open>{b: int}\<close> that doubles \<open>a\<close>, a
  base-class decorator and a \<^verbatim>\<open>PredictionIDDecorator\<close> around it, an unbound decorator,
  and a validator that accepts a value of the field's type as it is.
\<close>

definition int_field :: field where
  "int_field = \<lparr>ftype = TInt, required = True, default = None, constraints = []\<rparr>"

definition example_model :: base_model where
  "example_model =
     \<lparr>m_display_name = ''Example'', m_qualified_name = ''example'',
      m_description = ''Doubles a.'', m_version = ''0.1.0'',
      m_input_schema = 0, m_output_schema = 1,
      m_predict = (\<lambda>x. case map_of (attrs x) ''a'' of
                          Some (PInt n) \<Rightarrow> Inr \<lparr>cls = 1, attrs = [(''b'', PInt (2 * n))]\<rparr>
                        | _ \<Rightarrow> Inl (ModelError ''a''))\<rparr>"

fun conforms :: "ftype \<Rightarrow> pyval \<Rightarrow> bool" where
  "conforms TStr (PStr s) = True"
| "conforms TInt (PInt i) = True"
| "conforms TBool (PBool b) = True"
| "conforms (TOptional t) v = (v = PNone \<or> conforms t v)"
| "conforms t v = False"

definition strict :: validator where
  "strict f v = (if conforms (ftype f) v then Some v else None)"





definition heap0 :: "obj list" where
  "heap0 = [Schema \<lparr>schema_name = ''ModelInput'', schema_fields = [(''a'', int_field)]\<rparr>,
            Schema \<lparr>schema_name = ''ModelOutput'', schema_fields = [(''b'', int_field)]\<rparr>,
            Model example_model,
            Decorator MLModelDecorator (Some (Ref 2)) (Some []),
            Decorator PredictionIDDecorator (Some (Ref 2)) (Some []),
            Decorator PredictionIDDecorator (Some PyNone) (Some [])]"

definition st0 :: state where
  "st0 = \<lparr>heap = heap0, entropy = (\<lambda>n. 0x123456789abcdef0123456789abcdef0), draws = 0\<rparr>"

definition a5 :: schema_instance where
  "a5 = \<lparr>cls = 0, attrs = [(''a'', PInt 5)]\<rparr>"

text \<open>
  A model whose input schema has a field \<^verbatim>\<open>prediction_id\<close> of its own, a required
  integer, and a \<^verbatim>\<open>PredictionIDDecorator\<close> around it.
\<close>

definition numbered_model :: base_model where
  "numbered_model =
     \<lparr>m_display_name = ''Numbered'', m_qualified_name = ''numbered'',
      m_description = ''Takes numbered inputs.'', m_version = ''0.1.0'',
      m_input_schema = 0, m_output_schema = 1,
      m_predict = (\<lambda>x. Inr \<lparr>cls = 1, attrs = [(''b'', PInt 0)]\<rparr>)\<rparr>"

definition numbered_heap :: "obj list" where
  "numbered_heap =
     [Schema \<lparr>schema_name = ''ModelInput'',
              schema_fields = [(''prediction_id'', int_field), (''a'', int_field)]\<rparr>,
      Schema \<lparr>schema_name = ''ModelOutput'', schema_fields = [(''b'', int_field)]\<rparr>,
      Model numbered_model,
      Decorator PredictionIDDecorator (Some (Ref 2)) (Some [])]"

definition numbered_state :: state where
  "numbered_state = \<lparr>heap = numbered_heap, entropy = (\<lambda>n. 0), draws = 0\<rparr>"





definition no_a :: schema_instance where
  "no_a = \<lparr>cls = 0, attrs = [(''prediction_id'', PStr ''fixed-id-1'')]\<rparr>"

section \<open>The store\<close>

lemma lookup_append: "a < length h \<Longrightarrow> lookup (h @ ys) a = lookup h a"
  by (simp add: lookup_def nth_append)

lemma lookup_Some_less: "lookup h a = Some x \<Longrightarrow> a < length h"
  by (simp add: lookup_def split: if_splits)

lemma lookup_fresh: "lookup (h @ [x]) (length h) = Some x"
  by (simp add: lookup_def)

lemma lookup_extend: "lookup h a = Some x \<Longrightarrow> lookup (h @ ys) a = Some x"
  by (simp add: lookup_def nth_append split: if_splits)

lemma st0_model: "lookup (heap st0) 2 = Some (Model example_model)"
  by (simp add: st0_def heap0_def lookup_def)

lemma st0_model_predict:
  "predict V st0 2 a5 = Some (Inr \<lparr>cls = 1, attrs = [(''b'', PInt 10)]\<rparr>, st0)"
  using st0_model by (subst predict.simps) (simp add: example_model_def a5_def)

lemma st0_input: "input_schema st0 2 = Some (Inr 0, st0)"
  unfolding input_schema_def using st0_model
  by (subst schema_property.simps) (simp add: example_model_def)

lemma st0_output: "output_schema st0 2 = Some (Inr 1, st0)"
  unfolding output_schema_def using st0_model
  by (subst schema_property.simps) (simp add: example_model_def)

lemma st0_decorated:
  "lookup (heap st0) 4 = Some (Decorator PredictionIDDecorator (Some (Ref 2)) (Some []))"
  by (simp add: st0_def heap0_def lookup_def)

lemma st0_output_class:
  "lookup (heap st0) 1 =
     Some (Schema \<lparr>schema_name = ''ModelOutput'', schema_fields = [(''b'', int_field)]\<rparr>)"
  by (simp add: st0_def heap0_def lookup_def)

lemma st0_input_class:
  "lookup (heap st0) 0 =
     Some (Schema \<lparr>schema_name = ''ModelInput'', schema_fields = [(''a'', int_field)]\<rparr>)"
  by (simp add: st0_def heap0_def lookup_def)


section \<open>Transparency of the base class\<close>

text \<open>
  C1. A decorator of the base class \<^verbatim>\<open>MLModelDecorator\<close> itself that wraps \<open>w\<close> is
  transparent: in every state in which it is read, \<^verbatim>\<open>predict\<close> on any input and each
  of the six properties give exactly what the same operation gives on \<open>w\<close> in that
  state, the result, the exception or the failure to return. Nothing is kept from the
  time of construction: the only thing the decorator contributes is the reference.
\<close>

theorem base_decorator_transparent:
  assumes "lookup (heap st) d = Some (Decorator MLModelDecorator (Some (Ref w)) conf)"
  shows "predict V st d x = predict V st w x \<and>
         display_name (heap st) d = display_name (heap st) w \<and>
         qualified_name (heap st) d = qualified_name (heap st) w \<and>
         description (heap st) d = description (heap st) w \<and>
         version (heap st) d = version (heap st) w \<and>
         input_schema st d = input_schema st w \<and>
         output_schema st d = output_schema st w"
proof -
  have p: "predict V st d x = predict V st w x"
    using assms by (subst predict.simps) simp
  have s: "str_property q (heap st) d = str_property q (heap st) w" for q
    using assms by (subst str_property.simps) simp
  have c: "schema_property q st d = schema_property q st w" for q
    using assms by (subst schema_property.simps) simp
  show ?thesis
    using p s c
    by (simp add: display_name_def qualified_name_def description_def version_def
        input_schema_def output_schema_def)
qed

theorem base_decorator_transparent_witness:
  "lookup (heap st0) 3 = Some (Decorator MLModelDecorator (Some (Ref 2)) (Some [])) \<and>
   predict strict st0 3 a5 = Some (Inr \<lparr>cls = 1, attrs = [(''b'', PInt 10)]\<rparr>, st0) \<and>
   display_name (heap st0) 3 = Some (Inr ''Example'') \<and>
   input_schema st0 3 = Some (Inr 0, st0)"
proof -
  have h: "lookup (heap st0) 3 = Some (Decorator MLModelDecorator (Some (Ref 2)) (Some []))"
    by (simp add: st0_def heap0_def lookup_def)
  have "display_name (heap st0) 2 = Some (Inr ''Example'')"
    unfolding display_name_def using st0_model
    by (subst str_property.simps) (simp add: example_model_def)
  moreover have "input_schema st0 2 = Some (Inr 0, st0)"
    unfolding input_schema_def using st0_model
    by (subst schema_property.simps) (simp add: example_model_def)
  ultimately show ?thesis
    using h st0_model_predict [of strict] base_decorator_transparent [OF h, of strict a5]
    by simp
qed

section \<open>Construction\<close>

lemma isinstance_less: "isinstance_MLModel h (Ref a) \<Longrightarrow> a < length h"
  by (auto simp: isinstance_MLModel_def lookup_def split: if_splits)

lemma isinstance_append:
  "a < length h \<Longrightarrow> isinstance_MLModel (h @ ys) (Ref a) = isinstance_MLModel h (Ref a)"
  by (simp add: isinstance_MLModel_def lookup_append)

lemma decorator_class_fresh: "decorator_class (h @ [Decorator c m k]) (length h) = Some c"
  by (simp add: decorator_class_def lookup_fresh)

lemma prediction_id_cases:
  "PredictionIDDecorator_prediction_id st x =
     (case map_of (attrs x) ''prediction_id'' of
        Some v \<Rightarrow> if v \<noteq> PNone then (Inr v, st)
                  else (Inr (PStr (uuid_str (fst (uuid4 st)))), snd (uuid4 st))
      | None \<Rightarrow> (Inr (PStr (uuid_str (fst (uuid4 st)))), snd (uuid4 st)))"
  by (simp add: PredictionIDDecorator_prediction_id_def hasattr_def getattr_def
      split: option.splits prod.splits)

text \<open>
  C5. The constructor call with an existing object that is not an \<^verbatim>\<open>MLModel\<close> raises
  \<^verbatim>\<open>ValueError\<close> (the spec's InvalidWrappedComponent): no reference is returned, the
  objects of the store are as they were, and the instance \<^verbatim>\<open>__new__\<close> had allocated is
  left with an empty \<^verbatim>\<open>__dict__\<close>, since the check precedes both assignments. With an
  \<^verbatim>\<open>MLModel\<close> the call returns a new decorator that holds the reference and the
  configuration.
\<close>

theorem construction_checks_wrapped:
  "(a < length h \<and> \<not> isinstance_MLModel h (Ref a) \<longrightarrow>
      new_decorator c h (Ref a) kw =
        (Inl (ValueError ''Only objects of type MLModel can be wrapped with MLModelDecorator instances.''),
         h @ [Decorator c None None])) \<and>
   (isinstance_MLModel h (Ref a) \<longrightarrow>
      new_decorator c h (Ref a) kw =
        (Inr (length h), h @ [Decorator c (Some (Ref a)) (Some kw)]))"
proof (intro conjI impI)
  assume "a < length h \<and> \<not> isinstance_MLModel h (Ref a)"
  then show "new_decorator c h (Ref a) kw =
        (Inl (ValueError ''Only objects of type MLModel can be wrapped with MLModelDecorator instances.''),
         h @ [Decorator c None None])"
    by (simp add: new_decorator_def MLModelDecorator_init_def decorator_class_fresh
        isinstance_append)
next
  assume i: "isinstance_MLModel h (Ref a)"
  then have "a < length h" by (rule isinstance_less)
  with i show "new_decorator c h (Ref a) kw =
        (Inr (length h), h @ [Decorator c (Some (Ref a)) (Some kw)])"
    by (simp add: new_decorator_def MLModelDecorator_init_def decorator_class_fresh
        isinstance_append)
qed

theorem construction_checks_wrapped_witness:
  "new_decorator MLModelDecorator heap0 (Ref 0) [] =
     (Inl (ValueError ''Only objects of type MLModel can be wrapped with MLModelDecorator instances.''),
      heap0 @ [Decorator MLModelDecorator None None]) \<and>
   new_decorator MLModelDecorator heap0 (Ref 2) [] =
     (Inr 6, heap0 @ [Decorator MLModelDecorator (Some (Ref 2)) (Some [])])"
proof -
  have n: "(0::nat) < length heap0 \<and> \<not> isinstance_MLModel heap0 (Ref 0)"
    by (simp add: heap0_def isinstance_MLModel_def lookup_def)
  have y: "isinstance_MLModel heap0 (Ref 2)"
    by (simp add: heap0_def isinstance_MLModel_def lookup_def)
  have l: "length heap0 = 6" by (simp add: heap0_def)
  show ?thesis
    using n y l construction_checks_wrapped [of 0 heap0 MLModelDecorator "[]"]
      construction_checks_wrapped [of 2 heap0 MLModelDecorator "[]"]
    by simp
qed

text \<open>
  C6. The constructor call without a wrapped component succeeds and leaves a decorator
  whose \<^verbatim>\<open>_model\<close> is \<^verbatim>\<open>None\<close>. While it is, each of the six properties and \<^verbatim>\<open>predict\<close>
  raise: the attribute is read from \<^verbatim>\<open>None\<close>, which is Python's \<^verbatim>\<open>AttributeError\<close> (the
  spec's UnboundDecorator). This holds for the base class and for
  \<^verbatim>\<open>PredictionIDDecorator\<close>, whose \<^verbatim>\<open>predict\<close> has chosen the identifier by then.
\<close>

theorem unbound_decorator_fails:
  "new_decorator c h PyNone kw = (Inr (length h), h @ [Decorator c (Some PyNone) (Some kw)]) \<and>
   (lookup (heap st) d = Some (Decorator c (Some PyNone) conf) \<longrightarrow>
      display_name (heap st) d = Some (Inl (AttributeError ''display_name'')) \<and>
      qualified_name (heap st) d = Some (Inl (AttributeError ''qualified_name'')) \<and>
      description (heap st) d = Some (Inl (AttributeError ''description'')) \<and>
      version (heap st) d = Some (Inl (AttributeError ''version'')) \<and>
      input_schema st d = Some (Inl (AttributeError ''input_schema''), st) \<and>
      output_schema st d = Some (Inl (AttributeError ''output_schema''), st) \<and>
      predict V st d x =
        Some (Inl (AttributeError ''predict''),
              case c of MLModelDecorator \<Rightarrow> st
              | PredictionIDDecorator \<Rightarrow> snd (PredictionIDDecorator_prediction_id st x)))"
proof (intro conjI impI)
  show "new_decorator c h PyNone kw = (Inr (length h), h @ [Decorator c (Some PyNone) (Some kw)])"
    by (simp add: new_decorator_def MLModelDecorator_init_def decorator_class_fresh)
next
  assume u: "lookup (heap st) d = Some (Decorator c (Some PyNone) conf)"
  have s: "str_property q (heap st) d = Some (Inl (AttributeError (sattr_name q)))" for q
    using u by (subst str_property.simps) simp
  have k: "schema_property q st d = Some (Inl (AttributeError (cattr_name q)), st)" for q
    using u by (subst schema_property.simps) (simp split: dclass.splits)
  show "display_name (heap st) d = Some (Inl (AttributeError ''display_name''))"
    using s [of Display_name] by (simp add: display_name_def)
  show "qualified_name (heap st) d = Some (Inl (AttributeError ''qualified_name''))"
    using s [of Qualified_name] by (simp add: qualified_name_def)
  show "description (heap st) d = Some (Inl (AttributeError ''description''))"
    using s [of Description] by (simp add: description_def)
  show "version (heap st) d = Some (Inl (AttributeError ''version''))"
    using s [of Version] by (simp add: version_def)
  show "input_schema st d = Some (Inl (AttributeError ''input_schema''), st)"
    using k [of Input_schema] by (simp add: input_schema_def)
  show "output_schema st d = Some (Inl (AttributeError ''output_schema''), st)"
    using k [of Output_schema] by (simp add: output_schema_def)
  show "predict V st d x =
        Some (Inl (AttributeError ''predict''),
              case c of MLModelDecorator \<Rightarrow> st
              | PredictionIDDecorator \<Rightarrow> snd (PredictionIDDecorator_prediction_id st x))"
    using u by (subst predict.simps)
      (simp add: prediction_id_cases split: dclass.splits option.splits)
qed

theorem unbound_decorator_fails_witness:
  "new_decorator PredictionIDDecorator [] PyNone [] =
     (Inr 0, [Decorator PredictionIDDecorator (Some PyNone) (Some [])]) \<and>
   lookup (heap st0) 5 = Some (Decorator PredictionIDDecorator (Some PyNone) (Some [])) \<and>
   description (heap st0) 5 = Some (Inl (AttributeError ''description'')) \<and>
   output_schema st0 5 = Some (Inl (AttributeError ''output_schema''), st0) \<and>
   predict strict st0 5 a5 = Some (Inl (AttributeError ''predict''), st0\<lparr>draws := 1\<rparr>)"
proof -
  have u: "lookup (heap st0) 5 = Some (Decorator PredictionIDDecorator (Some PyNone) (Some []))"
    by (simp add: st0_def heap0_def lookup_def)
  have g: "snd (PredictionIDDecorator_prediction_id st0 a5) = st0\<lparr>draws := 1\<rparr>"
    by (simp add: prediction_id_cases a5_def uuid4_def Let_def st0_def)
  show ?thesis
    using u g unbound_decorator_fails [of PredictionIDDecorator "[]" "[]" st0 5 "Some []" strict a5]
    by simp
qed

section \<open>Chains of decorators\<close>

lemma chain_end_extend: "chain_end h a b \<Longrightarrow> chain_end (h @ ys) a b"
proof (induction rule: chain_end.induct)
  case (base h a m)
  then show ?case by (auto intro: chain_end.base dest: lookup_extend)
next
  case (step h a c w conf b)
  then show ?case by (auto intro: chain_end.step dest: lookup_extend)
qed

lemma chain_end_isinstance: "chain_end h a b \<Longrightarrow> isinstance_MLModel h (Ref a)"
  by (induction rule: chain_end.induct) (simp_all add: isinstance_MLModel_def)

lemma self_wrapped_no_end:
  "chain_end h a b \<Longrightarrow> h = [Decorator c (Some (Ref 0)) conf] \<Longrightarrow> False"
  by (induction rule: chain_end.induct) (auto simp: lookup_def split: if_splits)

text \<open>
  C7, as the claim states it, fails: \<^verbatim>\<open>__init__\<close> tests only that the wrapped object is
  an \<^verbatim>\<open>MLModel\<close>. Run on an unbound decorator with the decorator itself as the model
  (every decorator is an \<^verbatim>\<open>MLModel\<close>), it raises nothing and stores the reference, and
  the chain of the decorator then ends at no model.
\<close>

theorem self_wrapping_accepted:
  "MLModelDecorator_init [Decorator MLModelDecorator (Some PyNone) (Some [])] 0 (Ref 0) [] =
     (Inr (), [Decorator MLModelDecorator (Some (Ref 0)) (Some [])]) \<and>
   \<not> (\<exists>b. chain_end [Decorator MLModelDecorator (Some (Ref 0)) (Some [])] 0 b)"
proof -
  have "\<not> (\<exists>b. chain_end [Decorator MLModelDecorator (Some (Ref 0)) (Some [])] 0 b)"
    using self_wrapped_no_end by blast
  then show ?thesis
    by (simp add: MLModelDecorator_init_def decorator_class_def isinstance_MLModel_def lookup_def)
qed

text \<open>
  C7, amended. The constructor call gives the new decorator a fresh identity, so it
  cannot be part of the chain it wraps: around a component whose chain ends at the
  model \<open>b\<close> the call succeeds, the chain of the new decorator ends at \<open>b\<close>, and every
  chain that ended at a model before still ends there.
\<close>

theorem fresh_decorator_chain:
  assumes "chain_end h w b"
  shows "new_decorator c h (Ref w) kw =
           (Inr (length h), h @ [Decorator c (Some (Ref w)) (Some kw)]) \<and>
         chain_end (h @ [Decorator c (Some (Ref w)) (Some kw)]) (length h) b \<and>
         (\<forall>a e. chain_end h a e \<longrightarrow> chain_end (h @ [Decorator c (Some (Ref w)) (Some kw)]) a e)"
proof -
  have i: "isinstance_MLModel h (Ref w)"
    using assms by (rule chain_end_isinstance)
  then have l: "w < length h"
    by (auto simp: isinstance_MLModel_def lookup_def split: if_splits)
  have n: "new_decorator c h (Ref w) kw =
           (Inr (length h), h @ [Decorator c (Some (Ref w)) (Some kw)])"
    using i l by (simp add: new_decorator_def MLModelDecorator_init_def decorator_class_fresh
        isinstance_append)
  have "chain_end (h @ [Decorator c (Some (Ref w)) (Some kw)]) w b"
    using assms by (rule chain_end_extend)
  then have e: "chain_end (h @ [Decorator c (Some (Ref w)) (Some kw)]) (length h) b"
    by (rule chain_end.step [OF lookup_fresh])
  show ?thesis
    using n e chain_end_extend by blast
qed

theorem fresh_decorator_chain_witness:
  "chain_end heap0 4 2 \<and>
   new_decorator MLModelDecorator heap0 (Ref 4) [] =
     (Inr 6, heap0 @ [Decorator MLModelDecorator (Some (Ref 4)) (Some [])]) \<and>
   chain_end (heap0 @ [Decorator MLModelDecorator (Some (Ref 4)) (Some [])]) 6 2"
proof -
  have "chain_end heap0 2 2"
    by (rule chain_end.base [of _ _ example_model]) (simp add: heap0_def lookup_def)
  then have c: "chain_end heap0 4 2"
    by (rule chain_end.step [of _ _ PredictionIDDecorator _ "Some []", rotated])
       (simp add: heap0_def lookup_def)
  have l: "length heap0 = 6" by (simp add: heap0_def)
  show ?thesis
    using c l fresh_decorator_chain [OF c, of MLModelDecorator "[]"] by simp
qed

section \<open>Reading the schemas\<close>

lemma state_heap_append_nil [simp]: "st\<lparr>heap := heap st @ []\<rparr> = (st::state)"
  by simp

lemma PredictionIDDecorator_schema_frame:
  "\<exists>zs. snd (PredictionIDDecorator_schema p rs) = (snd rs)\<lparr>heap := heap (snd rs) @ zs\<rparr>"
proof (cases p)
  case Input_schema
  then show ?thesis
    by (auto simp: PredictionIDDecorator_input_schema_def create_model_def
        split: prod.splits sum.splits option.splits obj.splits intro: exI [of _ "[]"])
next
  case Output_schema
  then show ?thesis
    by (auto simp: PredictionIDDecorator_output_schema_def create_model_def
        split: prod.splits sum.splits option.splits obj.splits intro: exI [of _ "[]"])
qed

lemma schema_property_frame:
  "schema_property p st a = Some y \<Longrightarrow> \<exists>ys. snd y = st\<lparr>heap := heap st @ ys\<rparr>"
proof (induction rule: schema_property.raw_induct [rotated 1, consumes 1])
  case (1 schema_property p st a y)
  show ?case
  proof (cases "lookup (heap st) a")
    case None
    with 1(2) show ?thesis by (auto intro: exI [of _ "[]"])
  next
    case (Some ob)
    show ?thesis
    proof (cases ob)
      case (Decorator c model conf)
      show ?thesis
      proof (cases c)
        case MLModelDecorator
        with 1 Some Decorator show ?thesis
          by (auto split: sum.splits intro: exI [of _ "[]"])
      next
        case PredictionIDDecorator
        show ?thesis
        proof (cases "self_model (cattr_name p) model")
          case (Inl e)
          with 1(2) Some Decorator PredictionIDDecorator show ?thesis
            by (auto intro: exI [of _ "[]"])
        next
          case (Inr w)
          with 1(2) Some Decorator PredictionIDDecorator
          obtain rs where rs: "schema_property p st w = Some rs"
            and y: "y = PredictionIDDecorator_schema p rs"
            by (auto simp: bind_eq_Some_conv)
          from 1(1) [OF rs] obtain ys where ys: "snd rs = st\<lparr>heap := heap st @ ys\<rparr>" ..
          from PredictionIDDecorator_schema_frame [of p rs]
          obtain zs where "snd y = (snd rs)\<lparr>heap := heap (snd rs) @ zs\<rparr>"
            unfolding y ..
          with ys have "snd y = st\<lparr>heap := heap st @ (ys @ zs)\<rparr>" by simp
          then show ?thesis ..
        qed
      qed
    qed (use 1(2) Some in \<open>auto intro: exI [of _ "[]"]\<close>)
  qed
qed

lemma PredictionIDDecorator_schema_Schema:
  "lookup (heap st) c = Some (Schema sch) \<Longrightarrow>
   PredictionIDDecorator_schema p (Inr c, st) =
     (Inr (length (heap st)), st\<lparr>heap := heap st @ [Schema (derived p sch)]\<rparr>)"
  by (cases p)
    (simp_all add: PredictionIDDecorator_input_schema_def PredictionIDDecorator_output_schema_def
      create_model_def derived_def)

lemma PredictionIDDecorator_schema_Inr:
  assumes "PredictionIDDecorator_schema p rs = (Inr c, st')"
  shows "\<exists>ws st sch. rs = (Inr ws, st) \<and> lookup (heap st) ws = Some (Schema sch) \<and>
           c = length (heap st) \<and> st' = st\<lparr>heap := heap st @ [Schema (derived p sch)]\<rparr>"
  using assms
  by (cases p)
    (auto simp: PredictionIDDecorator_input_schema_def PredictionIDDecorator_output_schema_def
      create_model_def derived_def split: prod.splits sum.splits option.splits obj.splits)

lemma schema_property_decorated:
  assumes "lookup (heap st) d = Some (Decorator PredictionIDDecorator (Some (Ref w)) conf)"
    and "schema_property p st w = Some (Inr c, st')"
    and "lookup (heap st') c = Some (Schema sch)"
  shows "schema_property p st d =
           Some (Inr (length (heap st')), st'\<lparr>heap := heap st' @ [Schema (derived p sch)]\<rparr>)"
  using assms
  by (subst schema_property.simps) (simp add: PredictionIDDecorator_schema_Schema)

lemma schema_property_stable:
  "schema_property p st a = Some y \<Longrightarrow>
   fst y = Inr c \<Longrightarrow> lookup (heap (snd y)) c = Some (Schema s) \<Longrightarrow>
   \<exists>c2 st2. schema_property p (st\<lparr>heap := heap st @ ys\<rparr>) a = Some (Inr c2, st2) \<and>
            lookup (heap st2) c2 = Some (Schema s)"
proof (induction arbitrary: c s rule: schema_property.raw_induct [rotated 1, consumes 1])
  case (1 approx p st a y)
  show ?case
  proof (cases "lookup (heap st) a")
    case None
    with 1(2,3) show ?thesis by auto
  next
    case (Some ob)
    then have a: "lookup (heap st @ ys) a = Some ob"
      by (rule lookup_extend)
    show ?thesis
    proof (cases ob)
      case (Model m)
      with 1(2,3,4) Some have "c = base_schema p m" "lookup (heap st) c = Some (Schema s)"
        by auto
      then have "lookup (heap st @ ys) c = Some (Schema s)"
        by (simp add: lookup_extend)
      with a Model \<open>c = base_schema p m\<close> show ?thesis
        by (subst schema_property.simps) simp
    next
      case (Decorator k model conf)
      show ?thesis
      proof (cases k)
        case MLModelDecorator
        show ?thesis
        proof (cases "dict_model (cattr_name p) model")
          case (Inl e)
          with 1(2,3) Some Decorator MLModelDecorator show ?thesis by auto
        next
          case (Inr w)
          with 1(2) Some Decorator MLModelDecorator have "approx p st w = Some y" by simp
          from 1(1) [OF this 1(3) 1(4)] obtain c2 st2
            where "schema_property p (st\<lparr>heap := heap st @ ys\<rparr>) w = Some (Inr c2, st2)"
              and "lookup (heap st2) c2 = Some (Schema s)" by blast
          with a Decorator MLModelDecorator Inr show ?thesis
            by (subst schema_property.simps) simp
        qed
      next
        case PredictionIDDecorator
        show ?thesis
        proof (cases "self_model (cattr_name p) model")
          case (Inl e)
          with 1(2,3) Some Decorator PredictionIDDecorator show ?thesis by auto
        next
          case (Inr w)
          with 1(2) Some Decorator PredictionIDDecorator
          obtain rs where rs: "approx p st w = Some rs"
            and y: "y = PredictionIDDecorator_schema p rs"
            by (auto simp: bind_eq_Some_conv)
          from y 1(3) have "PredictionIDDecorator_schema p rs = (Inr c, snd y)"
            by (metis prod.collapse)
          from PredictionIDDecorator_schema_Inr [OF this]
          obtain ws st' sch where r: "rs = (Inr ws, st')"
            and l: "lookup (heap st') ws = Some (Schema sch)"
            and c: "c = length (heap st')"
            and s': "snd y = st'\<lparr>heap := heap st' @ [Schema (derived p sch)]\<rparr>"
            by blast
          from 1(4) c s' have s: "s = derived p sch"
            by (simp add: lookup_fresh)
          from 1(1) [OF rs, of ws sch] r l obtain c2 st2
            where w2: "schema_property p (st\<lparr>heap := heap st @ ys\<rparr>) w = Some (Inr c2, st2)"
              and l2: "lookup (heap st2) c2 = Some (Schema sch)" by auto
          have "schema_property p (st\<lparr>heap := heap st @ ys\<rparr>) a =
                  Some (PredictionIDDecorator_schema p (Inr c2, st2))"
            using a Decorator PredictionIDDecorator Inr w2
            by (subst schema_property.simps) simp
          with l2 s show ?thesis
            by (simp add: PredictionIDDecorator_schema_Schema lookup_fresh)
        qed
      qed
    qed (use 1(2,3) Some in auto)
  qed
qed


text \<open>
  C8. Reading \<^verbatim>\<open>input_schema\<close> or \<^verbatim>\<open>output_schema\<close> is pure. Whatever the read
  returns, it leaves every object of the store as it was (the schema classes of the
  wrapped component and every class derived earlier among them) and only adds the
  classes it creates; nothing is drawn from the entropy source. Reading the property
  again returns a class that is structurally equal to the first, not necessarily the
  same object.
\<close>

theorem schema_access_pure:
  assumes "g \<in> {input_schema, output_schema}"
    and "g st d = Some (r, st')"
  shows "(\<exists>ys. st' = st\<lparr>heap := heap st @ ys\<rparr>) \<and>
         (\<forall>c s. r = Inr c \<and> lookup (heap st') c = Some (Schema s) \<longrightarrow>
            (\<exists>c2 st2. g st' d = Some (Inr c2, st2) \<and> lookup (heap st2) c2 = Some (Schema s)))"
proof -
  from assms(1) obtain p where g: "g = schema_property p"
    by (auto simp: input_schema_def output_schema_def)
  from assms(2) have run: "schema_property p st d = Some (r, st')"
    by (simp add: g)
  from schema_property_frame [OF run] obtain ys where ys: "st' = st\<lparr>heap := heap st @ ys\<rparr>"
    by auto
  have "\<exists>c2 st2. schema_property p st' d = Some (Inr c2, st2) \<and>
          lookup (heap st2) c2 = Some (Schema s)"
    if "r = Inr c" and "lookup (heap st') c = Some (Schema s)" for c s
    using schema_property_stable [OF run, of c s ys] that ys by simp
  with ys g show ?thesis by blast
qed

theorem schema_access_pure_witness:
  "input_schema st0 4 =
     Some (Inr 6, st0\<lparr>heap := heap st0 @
       [Schema \<lparr>schema_name = ''ModelInput'',
                schema_fields = [(''a'', int_field), (''prediction_id'', input_prediction_id)]\<rparr>]\<rparr>) \<and>
   (\<exists>c2 st2. input_schema (st0\<lparr>heap := heap st0 @
       [Schema \<lparr>schema_name = ''ModelInput'',
                schema_fields = [(''a'', int_field), (''prediction_id'', input_prediction_id)]\<rparr>]\<rparr>) 4 =
         Some (Inr c2, st2) \<and>
       lookup (heap st2) c2 =
         Some (Schema \<lparr>schema_name = ''ModelInput'',
                schema_fields = [(''a'', int_field), (''prediction_id'', input_prediction_id)]\<rparr>))"
proof -
  let ?s = "\<lparr>schema_name = ''ModelInput'',
             schema_fields = [(''a'', int_field), (''prediction_id'', input_prediction_id)]\<rparr>"
  have l: "lookup (heap st0) 0 =
      Some (Schema \<lparr>schema_name = ''ModelInput'', schema_fields = [(''a'', int_field)]\<rparr>)"
    by (simp add: st0_def heap0_def lookup_def)
  have n: "length (heap st0) = 6" by (simp add: st0_def heap0_def)
  have r: "input_schema st0 4 = Some (Inr 6, st0\<lparr>heap := heap st0 @ [Schema ?s]\<rparr>)"
    using schema_property_decorated [OF st0_decorated st0_input [unfolded input_schema_def] l] n
    by (simp add: input_schema_def derived_def)
  have f: "lookup (heap (st0\<lparr>heap := heap st0 @ [Schema ?s]\<rparr>)) 6 = Some (Schema ?s)"
    using lookup_fresh [of "heap st0" "Schema ?s"] n by simp
  have "input_schema \<in> {input_schema, output_schema}" by simp
  from schema_access_pure [OF this r] f r show ?thesis by blast
qed

text \<open>
  C3, as the claim states it, fails for a wrapped schema that has a field
  \<^verbatim>\<open>prediction_id\<close> of its own: the derived schema holds the decorator's descriptor
  under that name, an optional string here, where the wrapped schema has a required
  integer.
\<close>

theorem overridden_field_changes:
  "input_schema numbered_state 2 = Some (Inr 0, numbered_state) \<and>
   lookup (heap numbered_state) 0 =
     Some (Schema \<lparr>schema_name = ''ModelInput'',
             schema_fields = [(''prediction_id'', int_field), (''a'', int_field)]\<rparr>) \<and>
   input_schema numbered_state 3 =
     Some (Inr 4, numbered_state\<lparr>heap := heap numbered_state @
       [Schema \<lparr>schema_name = ''ModelInput'',
                schema_fields = [(''prediction_id'', input_prediction_id), (''a'', int_field)]\<rparr>]\<rparr>) \<and>
   int_field \<noteq> input_prediction_id"
proof -
  have m: "lookup (heap numbered_state) 2 = Some (Model numbered_model)"
    by (simp add: numbered_state_def numbered_heap_def lookup_def)
  have d: "lookup (heap numbered_state) 3 =
      Some (Decorator PredictionIDDecorator (Some (Ref 2)) (Some []))"
    by (simp add: numbered_state_def numbered_heap_def lookup_def)
  have c: "lookup (heap numbered_state) 0 =
     Some (Schema \<lparr>schema_name = ''ModelInput'',
             schema_fields = [(''prediction_id'', int_field), (''a'', int_field)]\<rparr>)"
    by (simp add: numbered_state_def numbered_heap_def lookup_def)
  have w: "schema_property Input_schema numbered_state 2 = Some (Inr 0, numbered_state)"
    using m by (subst schema_property.simps) (simp add: numbered_model_def)
  have n: "length (heap numbered_state) = 4"
    by (simp add: numbered_state_def numbered_heap_def)
  have "int_field \<noteq> input_prediction_id"
    by (simp add: int_field_def input_prediction_id_def)
  then show ?thesis
    using schema_property_decorated [OF d w c] w c n
    by (simp add: input_schema_def derived_def)
qed

text \<open>
  C3, amended. When the wrapped component returns its schema classes, the input and
  output schema of \<^verbatim>\<open>PredictionIDDecorator\<close> are new classes with the name of the wrapped
  class, in which every field other than \<^verbatim>\<open>prediction_id\<close> has the descriptor it has in
  the wrapped class and \<^verbatim>\<open>prediction_id\<close> has the decorator's (optional string with
  default \<^verbatim>\<open>None\<close> for the input, required string for the output). The fields keep
  their order; \<^verbatim>\<open>prediction_id\<close> is appended when the wrapped class has no such field.
\<close>

theorem derived_schemas:
  assumes "lookup (heap st) d = Some (Decorator PredictionIDDecorator (Some (Ref w)) conf)"
    and "input_schema st w = Some (Inr ci, sti)" and "lookup (heap sti) ci = Some (Schema si)"
    and "output_schema st w = Some (Inr co, sto)" and "lookup (heap sto) co = Some (Schema so)"
  shows "(\<exists>c st' s'. input_schema st d = Some (Inr c, st') \<and>
            lookup (heap st') c = Some (Schema s') \<and>
            schema_name s' = schema_name si \<and>
            map_of (schema_fields s') =
              (map_of (schema_fields si))(''prediction_id'' \<mapsto> input_prediction_id) \<and>
            map fst (schema_fields s') =
              (if ''prediction_id'' \<in> fst ` set (schema_fields si)
               then map fst (schema_fields si)
               else map fst (schema_fields si) @ [''prediction_id''])) \<and>
         (\<exists>c st' s'. output_schema st d = Some (Inr c, st') \<and>
            lookup (heap st') c = Some (Schema s') \<and>
            schema_name s' = schema_name so \<and>
            map_of (schema_fields s') =
              (map_of (schema_fields so))(''prediction_id'' \<mapsto> output_prediction_id) \<and>
            map fst (schema_fields s') =
              (if ''prediction_id'' \<in> fst ` set (schema_fields so)
               then map fst (schema_fields so)
               else map fst (schema_fields so) @ [''prediction_id'']))"
proof -
  have k: "map fst (AList.update k v al) =
      (if k \<in> fst ` set al then map fst al else map fst al @ [k])" for k :: string and v :: field and al
    by (simp add: update_keys)
  have "input_schema st d =
      Some (Inr (length (heap sti)), sti\<lparr>heap := heap sti @ [Schema (derived Input_schema si)]\<rparr>)"
    using schema_property_decorated [OF assms(1) assms(2) [unfolded input_schema_def] assms(3)]
    by (simp add: input_schema_def)
  moreover have "output_schema st d =
      Some (Inr (length (heap sto)), sto\<lparr>heap := heap sto @ [Schema (derived Output_schema so)]\<rparr>)"
    using schema_property_decorated [OF assms(1) assms(4) [unfolded output_schema_def] assms(5)]
    by (simp add: output_schema_def)
  ultimately show ?thesis
    by (simp add: lookup_fresh derived_def update_conv' k del: fun_upd_apply)
qed

theorem derived_schemas_witness:
  "lookup (heap st0) 4 = Some (Decorator PredictionIDDecorator (Some (Ref 2)) (Some [])) \<and>
   input_schema st0 2 = Some (Inr 0, st0) \<and> output_schema st0 2 = Some (Inr 1, st0) \<and>
   (\<exists>c st' s'. input_schema st0 4 = Some (Inr c, st') \<and>
      lookup (heap st') c = Some (Schema s') \<and> schema_name s' = ''ModelInput'' \<and>
      map_of (schema_fields s') = [''a'' \<mapsto> int_field, ''prediction_id'' \<mapsto> input_prediction_id] \<and>
      map fst (schema_fields s') = [''a'', ''prediction_id'']) \<and>
   (\<exists>c st' s'. output_schema st0 4 = Some (Inr c, st') \<and>
      lookup (heap st') c = Some (Schema s') \<and> schema_name s' = ''ModelOutput'' \<and>
      map_of (schema_fields s') = [''b'' \<mapsto> int_field, ''prediction_id'' \<mapsto> output_prediction_id] \<and>
      map fst (schema_fields s') = [''b'', ''prediction_id''])"
  using st0_decorated st0_input st0_output
    derived_schemas [OF st0_decorated st0_input st0_input_class st0_output st0_output_class]
  by simp

section \<open>The form of an identifier\<close>


















section \<open>Predictions with an identifier\<close>

lemma uuid4_state: "snd (uuid4 st) = st\<lparr>draws := Suc (draws st)\<rparr>"
  by (simp add: uuid4_def Let_def)



lemma prediction_id_heap:
  "\<exists>v. fst (PredictionIDDecorator_prediction_id st x) = Inr v \<and>
       heap (snd (PredictionIDDecorator_prediction_id st x)) = heap st"
  by (simp add: prediction_id_cases uuid4_state split: option.splits)





lemma predict_wrapped_error:
  assumes d: "lookup (heap st) d = Some (Decorator PredictionIDDecorator (Some (Ref w)) conf)"
    and w: "predict V (snd (PredictionIDDecorator_prediction_id st x)) w x = Some (Inl e, st2)"
  shows "predict V st d x = Some (Inl e, st2)"
proof -
  obtain v st1 where i: "PredictionIDDecorator_prediction_id st x = (Inr v, st1)"
    using prediction_id_heap [of st x] by (metis prod.collapse)
  with d w show ?thesis
    by (subst predict.simps) simp
qed











text \<open>
  C4, as the claim states it, fails: the identifier is chosen before the wrapped
  component is called. On an input without identifier that the model rejects, the
  error comes back and one draw of the entropy source has been made.
\<close>

theorem identifier_drawn_before_failure:
  "predict strict st0 4 \<lparr>cls = 0, attrs = []\<rparr> =
     Some (Inl (ModelError ''a''), st0\<lparr>draws := 1\<rparr>) \<and> draws st0 = 0"
proof -
  have w: "predict strict (st0\<lparr>draws := 1\<rparr>) 2 \<lparr>cls = 0, attrs = []\<rparr> =
      Some (Inl (ModelError ''a''), st0\<lparr>draws := 1\<rparr>)"
    by (subst predict.simps) (simp add: st0_def heap0_def lookup_def example_model_def)
  have g: "snd (PredictionIDDecorator_prediction_id st0 \<lparr>cls = 0, attrs = []\<rparr>) = st0\<lparr>draws := 1\<rparr>"
    by (simp add: prediction_id_cases uuid4_state) (simp add: st0_def)
  from predict_wrapped_error [OF st0_decorated, of strict "\<lparr>cls = 0, attrs = []\<rparr>"] w g
  show ?thesis by (simp add: st0_def)
qed

text \<open>
  C4, amended. When the wrapped \<^verbatim>\<open>predict\<close> raises, \<^verbatim>\<open>PredictionIDDecorator.predict\<close>
  raises the same error and leaves the state the wrapped call left: no result and no
  identifier is returned and no class is created. The wrapped call ran in the state
  left by the choice of the identifier, which is the state before the call when the
  input carries an identifier and has one more draw when it carries none.
\<close>

theorem wrapped_failure_propagates:
  assumes "lookup (heap st) d = Some (Decorator PredictionIDDecorator (Some (Ref w)) conf)"
    and "predict V (snd (PredictionIDDecorator_prediction_id st x)) w x = Some (Inl e, st2)"
  shows "predict V st d x = Some (Inl e, st2) \<and>
         snd (PredictionIDDecorator_prediction_id st x) =
           (case map_of (attrs x) ''prediction_id'' of
              Some v \<Rightarrow> if v \<noteq> PNone then st else st\<lparr>draws := Suc (draws st)\<rparr>
            | None \<Rightarrow> st\<lparr>draws := Suc (draws st)\<rparr>)"
  using predict_wrapped_error [OF assms]
  by (simp add: prediction_id_cases uuid4_state split: option.splits)

theorem wrapped_failure_propagates_witness:
  "predict strict st0 2 no_a = Some (Inl (ModelError ''a''), st0) \<and>
   predict strict st0 4 no_a = Some (Inl (ModelError ''a''), st0)"
proof -
  have g: "snd (PredictionIDDecorator_prediction_id st0 no_a) = st0"
    by (simp add: prediction_id_cases no_a_def)
  have w: "predict strict st0 2 no_a = Some (Inl (ModelError ''a''), st0)"
    using st0_model by (subst predict.simps) (simp add: example_model_def no_a_def)
  from wrapped_failure_propagates [OF st0_decorated, of strict no_a "ModelError ''a''" st0] w g
  show ?thesis by simp
qed







end
